theory Spec2Isabelle
  imports Main "HOL-Library.Word"
begin

section \<open>JavaScript values as the session code handles them\<close>

text \<open>
  \<^verbatim>\<open>src/src/session.ts\<close> reads response bodies, parameter objects and error payloads
  as values of type \<^verbatim>\<open>any\<close>. The model keeps one universe of such values. Numbers
  are integers (status codes, page numbers); an object is the list of its own enumerable
  properties in insertion order. \<open>Stream\<close> is the readable stream axios hands over for
  \<^verbatim>\<open>responseType: 'stream'\<close>: the chunks the peer produced, in order, and how the
  stream ended (\<open>None\<close>: the peer closed the response, \<open>Some msg\<close>: the stream broke
  with that error).
\<close>

type_synonym Buffer = "8 word list"

datatype js_value =
    Undefined
  | Null
  | Bool bool
  | Number int
  | String string
  | Array "js_value list"
  | Object "(string \<times> js_value) list"
  | Stream "Buffer list" "string option"

text \<open>\<^verbatim>\<open>typeof v\<close>.\<close>

fun typeof :: "js_value \<Rightarrow> string" where
  "typeof Undefined = ''undefined''"
| "typeof Null = ''object''"
| "typeof (Bool b) = ''boolean''"
| "typeof (Number n) = ''number''"
| "typeof (String s) = ''string''"
| "typeof (Array xs) = ''object''"
| "typeof (Object fs) = ''object''"
| "typeof (Stream cs e) = ''object''"

text \<open>Truthiness, as \<^verbatim>\<open>if (v)\<close>, \<^verbatim>\<open>v && ...\<close> and \<^verbatim>\<open>v || ...\<close> test it.\<close>

fun truthy :: "js_value \<Rightarrow> bool" where
  "truthy Undefined = False"
| "truthy Null = False"
| "truthy (Bool b) = b"
| "truthy (Number n) = (n \<noteq> 0)"
| "truthy (String s) = (s \<noteq> [])"
| "truthy (Array xs) = True"
| "truthy (Object fs) = True"
| "truthy (Stream cs e) = True"

text \<open>\<^verbatim>\<open>a || b\<close>: the first operand when it is truthy, else the second.\<close>

definition js_or :: "js_value \<Rightarrow> js_value \<Rightarrow> js_value" where
  "js_or a b = (if truthy a then a else b)"

text \<open>Decimal digits of a number, for index keys and \<^verbatim>\<open>`voice_${i}.wav`\<close>.\<close>

definition digit_char :: "nat \<Rightarrow> char" where
  "digit_char d = char_of (48 + d)"

function show_nat :: "nat \<Rightarrow> string" where
  "show_nat n = (if n < 10 then [digit_char n] else show_nat (n div 10) @ [digit_char (n mod 10)])"
  by pat_completeness auto
termination
  by (relation "measure (\<lambda>n. n)") auto

declare show_nat.simps [simp del]

text \<open>
  The own enumerable properties of a value, which is what \<^verbatim>\<open>{...v}\<close> copies: the
  fields of an object, the indexed elements of an array, the indexed characters of a
  string, nothing for the other primitives. A stream is a host object; its internal
  fields are not modelled.
\<close>

fun own_props :: "js_value \<Rightarrow> (string \<times> js_value) list" where
  "own_props (Object fs) = fs"
| "own_props (Array xs) = zip (map show_nat [0..<length xs]) xs"
| "own_props (String s) = zip (map show_nat [0..<length s]) (map (\<lambda>c. String [c]) s)"
| "own_props v = []"

text \<open>
  \<^verbatim>\<open>v.k\<close> for a value that is neither \<^verbatim>\<open>null\<close> nor \<^verbatim>\<open>undefined\<close>: the own
  property, else \<^verbatim>\<open>undefined\<close>. The code reads only the fixed keys \<^verbatim>\<open>detail\<close>,
  \<^verbatim>\<open>message\<close>, \<^verbatim>\<open>_id\<close>, \<^verbatim>\<open>id\<close>, \<^verbatim>\<open>items\<close>, \<^verbatim>\<open>total\<close> and the parameter
  names, none of which is inherited from a prototype.
\<close>

definition js_get :: "js_value \<Rightarrow> string \<Rightarrow> js_value" where
  "js_get v k = (case map_of (own_props v) k of Some x \<Rightarrow> x | None \<Rightarrow> Undefined)"

text \<open>
  \<^verbatim>\<open>obj.k = x\<close> on a property list: an existing property keeps its place and takes the
  new value, a new one goes to the end.
\<close>

fun js_set :: "(string \<times> 'v) list \<Rightarrow> string \<Rightarrow> 'v \<Rightarrow> (string \<times> 'v) list" where
  "js_set [] k x = [(k, x)]"
| "js_set (p # ps) k x = (if fst p = k then (k, x) # ps else p # js_set ps k x)"

text \<open>\<^verbatim>\<open>{...base, ...extra}\<close>: the properties of \<open>extra\<close> assigned onto \<open>base\<close> in order.\<close>

definition spread :: "(string \<times> 'v) list \<Rightarrow> (string \<times> 'v) list \<Rightarrow> (string \<times> 'v) list" where
  "spread base extra = foldl (\<lambda>acc p. js_set acc (fst p) (snd p)) base extra"

section \<open>Responses, errors and the response interceptor\<close>

record response =
  status :: int
  statusText :: string
  data :: js_value

text \<open>
  What a call can throw. \<open>AxiosError\<close> is axios's rejection, with the response when one
  was received; \<open>HttpCodeError\<close> is \<^verbatim>\<open>new HttpCodeError(status, detail)\<close> of
  \<^verbatim>\<open>./exceptions\<close>, kept with the two constructor arguments; \<open>TypeError\<close> is the
  runtime's own (reading a property of \<^verbatim>\<open>null\<close>, calling what is not a function);
  \<open>Error\<close> is any other error, with its message.
\<close>

datatype js_error =
    AxiosError "response option"
  | HttpCodeError int js_value
  | TypeError
  | Error string

text \<open>
  The rejection handler of the interceptor (session.ts, lines 37-55). The detail starts
  as the status text; a string body replaces it; a truthy body of type object gives
  \<^verbatim>\<open>errorData.detail || errorData.message || error.response.statusText\<close>.
\<close>

definition errorDetail :: "response \<Rightarrow> js_value" where
  "errorDetail r =
     (let errorData = data r in
      if typeof errorData = ''string'' then errorData
      else if truthy errorData \<and> typeof errorData = ''object''
      then js_or (js_or (js_get errorData ''detail'') (js_get errorData ''message''))
             (String (statusText r))
      else String (statusText r))"

fun onRejected :: "js_error \<Rightarrow> js_error" where
  "onRejected (AxiosError (Some r)) = HttpCodeError (status r) (errorDetail r)"
| "onRejected e = e"

text \<open>
  The interceptor pair \<^verbatim>\<open>(response => response, error => {...})\<close>: a fulfilled
  response passes, a rejection is rethrown as \<open>onRejected\<close> gives it.
\<close>

definition interceptor :: "js_error + response \<Rightarrow> js_error + response" where
  "interceptor x = (case x of Inr r \<Rightarrow> Inr r | Inl e \<Rightarrow> Inl (onRejected e))"

text \<open>
  axios settles a received response by \<^verbatim>\<open>validateStatus\<close>, whose default accepts
  exactly the 2xx statuses; any other response rejects with an \<open>AxiosError\<close> that
  carries it. The session sets no \<^verbatim>\<open>validateStatus\<close> of its own.
\<close>

definition validateStatus :: "int \<Rightarrow> bool" where
  "validateStatus st = (200 \<le> st \<and> st < 300)"

definition settle :: "response \<Rightarrow> js_error + response" where
  "settle r = (if validateStatus (status r) then Inr r else Inl (AxiosError (Some r)))"

section \<open>The session: construction and close\<close>

text \<open>
  A keep-alive agent of Node's \<^verbatim>\<open>http\<close>/\<^verbatim>\<open>https\<close>, with the sockets it holds.
  \<^verbatim>\<open>agent.destroy()\<close> destroys the sockets the agent holds at that moment; the model
  returns them, so that what a call released can be read off, and leaves the agent
  with none.
\<close>

record Agent =
  keepAlive :: bool
  sockets :: "nat list"

definition new_Agent :: "Agent" where
  "new_Agent = \<lparr>keepAlive = True, sockets = []\<rparr>"

definition Agent_destroy :: "Agent \<Rightarrow> nat list \<times> Agent" where
  "Agent_destroy a = (sockets a, a\<lparr>sockets := []\<rparr>)"

text \<open>
  The axios instance of \<^verbatim>\<open>axios.create\<close>. Its \<^verbatim>\<open>httpAgent\<close> and \<^verbatim>\<open>httpsAgent\<close>
  options are the session's own two agent objects, so the model keeps the agents once,
  in the session.
\<close>

record AxiosInstance =
  baseURL :: string
  headers :: "(string \<times> string) list"
  timeout :: nat

record Session =
  client :: AxiosInstance
  httpAgent :: Agent
  httpsAgent :: Agent

definition default_baseUrl :: string where
  "default_baseUrl = ''https://api.fish.audio''"

definition default_developerId :: string where
  "default_developerId = ''6322d9df15d044e7b928de27c863480f''"

text \<open>The constructor; an argument left out takes its default.\<close>

definition new_Session :: "string \<Rightarrow> string option \<Rightarrow> string option \<Rightarrow> Session" where
  "new_Session apiKey baseUrl developerId =
     \<lparr>client =
        \<lparr>baseURL = (case baseUrl of Some u \<Rightarrow> u | None \<Rightarrow> default_baseUrl),
         headers =
           [(''Authorization'', ''Bearer '' @ apiKey),
            (''developer-id'', (case developerId of Some d \<Rightarrow> d | None \<Rightarrow> default_developerId))],
         timeout = 0\<rparr>,
      httpAgent = new_Agent,
      httpsAgent = new_Agent\<rparr>"

text \<open>
  \<^verbatim>\<open>close()\<close>: both agents are destroyed. The result is the sockets the call released
  and the session afterwards. The method has no \<^verbatim>\<open>throw\<close> and keeps no flag.
\<close>

definition close :: "Session \<Rightarrow> nat list \<times> Session" where
  "close s =
     (let (released1, a1) = Agent_destroy (httpAgent s);
          (released2, a2) = Agent_destroy (httpsAgent s)
      in (released1 @ released2, s\<lparr>httpAgent := a1, httpsAgent := a2\<rparr>))"

section \<open>Requests\<close>

datatype form_value =
    Field string
  | File Buffer string string

text \<open>
  A request body: none, a plain object handed to axios (which sends it as JSON),
  \<^verbatim>\<open>msgpack.encode(x)\<close>, or a \<^verbatim>\<open>FormData\<close> with its appended parts in order
  (\<open>File content filename contentType\<close>).
\<close>

datatype req_body =
    NoBody
  | Payload js_value
  | Msgpack js_value
  | Form "(string \<times> form_value) list"

record AxiosRequestConfig =
  req_method :: string
  req_url :: string
  req_data :: req_body
  req_headers :: "(string \<times> string) list"
  req_params :: "(string \<times> js_value) list option"
  responseType :: "string option"

text \<open>
  What the network does with a request is a parameter of every call: the peer answers
  with a response, or the request fails with an error of the transport. The transport
  sees the session too, since the agents are part of how axios sends.
\<close>

datatype wire = Answered response | Failed js_error

type_synonym transport = "Session \<Rightarrow> AxiosRequestConfig \<Rightarrow> wire"

text \<open>A peer that gives one answer to every request.\<close>

definition answering :: "wire \<Rightarrow> transport" where
  "answering w = (\<lambda>s cfg. w)"

text \<open>
  What axios hands over depends on \<^verbatim>\<open>responseType\<close>. Without one the body arrives
  decoded, as the transport gives it. With \<^verbatim>\<open>responseType: 'stream'\<close> (only \<^verbatim>\<open>tts\<close>
  asks for it) axios settles on the status line and hands over the response stream
  unread: the interceptor and the caller hold a stream object then, never a decoded
  body. The transport gives the body of such an answer as a \<open>Stream\<close>; for a body
  given in another form the model has no bytes, and what is handed over is a stream
  without chunks.
\<close>

fun unread :: "js_value \<Rightarrow> js_value" where
  "unread (Stream chunks ending) = Stream chunks ending"
| "unread body = Stream [] None"

definition handed_over :: "AxiosRequestConfig \<Rightarrow> response \<Rightarrow> response" where
  "handed_over cfg r =
     (if responseType cfg = Some ''stream'' then r\<lparr>data := unread (data r)\<rparr> else r)"

text \<open>
  \<^verbatim>\<open>this.client.get/post/patch/delete\<close>: axios settles the answer and the interceptor
  runs on the outcome. No method of the session tests anything before it sends.
\<close>

definition request :: "Session \<Rightarrow> transport \<Rightarrow> AxiosRequestConfig \<Rightarrow> js_error + response" where
  "request s net cfg =
     interceptor
       (case net s cfg of Answered r \<Rightarrow> settle (handed_over cfg r) | Failed e \<Rightarrow> Inl e)"

text \<open>
  The headers of the outbound request: axios merges the request's headers over the
  instance's, the later entry winning, and compares header names without regard to
  case.
\<close>

definition lower :: "char \<Rightarrow> char" where
  "lower c = (let n = (of_char c :: nat) in if 65 \<le> n \<and> n \<le> 90 then char_of (n + 32) else c)"

definition header_name :: "string \<Rightarrow> string" where
  "header_name k = map lower k"

definition header_lookup :: "(string \<times> string) list \<Rightarrow> string \<Rightarrow> string option" where
  "header_lookup hs k =
     map_of (rev (map (\<lambda>p. (header_name (fst p), snd p)) hs)) (header_name k)"

definition wire_headers :: "Session \<Rightarrow> AxiosRequestConfig \<Rightarrow> (string \<times> string) list" where
  "wire_headers s cfg = headers (client s) @ req_headers cfg"

subsection \<open>Synthesis\<close>

text \<open>
  \<^verbatim>\<open>tts(request, additionalHeaders)\<close>. \<open>requestPayload\<close> is \<^verbatim>\<open>request.toJSON()\<close>
  (\<^verbatim>\<open>TTSRequest\<close> is declared in \<^verbatim>\<open>./schemas\<close>). The console output of the method is
  left out.
\<close>

definition tts_config :: "js_value \<Rightarrow> (string \<times> string) list \<Rightarrow> AxiosRequestConfig" where
  "tts_config requestPayload additionalHeaders =
     \<lparr>req_method = ''post'', req_url = ''/v1/tts'', req_data = Payload requestPayload,
      req_headers = spread [(''Content-Type'', ''application/json'')] additionalHeaders,
      req_params = None, responseType = Some ''stream''\<rparr>"

text \<open>\<^verbatim>\<open>Buffer.from(chunk)\<close> copies the bytes of a chunk.\<close>

definition Buffer_from :: "Buffer \<Rightarrow> Buffer" where
  "Buffer_from chunk = chunk"

text \<open>
  A run of the generator to its end: the buffers it yielded, in order, and the error it
  threw, if any. The \<^verbatim>\<open>catch\<close> block rethrows the error it caught.
\<close>

fun for_await :: "Buffer list \<Rightarrow> string option \<Rightarrow> Buffer list \<times> js_error option" where
  "for_await [] ending = ([], map_option Error ending)"
| "for_await (chunk # rest) ending =
     (let (ys, thrown) = for_await rest ending in (Buffer_from chunk # ys, thrown))"

text \<open>
  With \<^verbatim>\<open>responseType: 'stream'\<close> axios resolves with the response stream, and
  \<open>request\<close> hands over nothing else; the second branch is there for the \<open>case\<close> to
  be complete.
\<close>

definition tts :: "Session \<Rightarrow> transport \<Rightarrow> js_value \<Rightarrow> (string \<times> string) list
    \<Rightarrow> Buffer list \<times> js_error option" where
  "tts s net requestPayload additionalHeaders =
     (case request s net (tts_config requestPayload additionalHeaders) of
        Inl e \<Rightarrow> ([], Some e)
      | Inr response \<Rightarrow>
          (case data response of
             Stream chunks ending \<Rightarrow> for_await chunks ending
           | _ \<Rightarrow> ([], Some TypeError)))"

subsection \<open>Recognition\<close>

text \<open>
  \<^verbatim>\<open>asr(request)\<close>. \<open>requestPayload\<close> is \<^verbatim>\<open>request.toJSON()\<close>; \<open>fromJSON\<close> is
  \<^verbatim>\<open>ASRResponse.fromJSON\<close> of \<^verbatim>\<open>./schemas\<close>, a parameter here: it returns a result
  or throws.
\<close>

definition asr_config :: "js_value \<Rightarrow> AxiosRequestConfig" where
  "asr_config requestPayload =
     \<lparr>req_method = ''post'', req_url = ''/v1/asr'', req_data = Msgpack requestPayload,
      req_headers = [(''Content-Type'', ''application/msgpack'')],
      req_params = None, responseType = None\<rparr>"

definition asr :: "(js_value \<Rightarrow> js_error + 'r) \<Rightarrow> Session \<Rightarrow> transport \<Rightarrow> js_value
    \<Rightarrow> js_error + 'r" where
  "asr fromJSON s net requestPayload =
     (case request s net (asr_config requestPayload) of
        Inl e \<Rightarrow> Inl e
      | Inr response \<Rightarrow> fromJSON (data response))"

subsection \<open>Model listing and fetching\<close>

text \<open>
  \<^verbatim>\<open>listModels(params)\<close> first builds \<^verbatim>\<open>apiParams\<close>: nine tests in the order of the
  source, each assigning one wire name. \<open>params\<close> is an object (the default is the empty
  one).
\<close>

definition listModels_apiParams :: "js_value \<Rightarrow> (string \<times> js_value) list" where
  "listModels_apiParams params =
     (let apiParams = [];
          apiParams = (if js_get params ''pageSize'' \<noteq> Undefined
                       then js_set apiParams ''page_size'' (js_get params ''pageSize'') else apiParams);
          apiParams = (if js_get params ''pageNumber'' \<noteq> Undefined
                       then js_set apiParams ''page_number'' (js_get params ''pageNumber'') else apiParams);
          apiParams = (if js_get params ''title'' \<noteq> Undefined
                       then js_set apiParams ''title'' (js_get params ''title'') else apiParams);
          apiParams = (if js_get params ''tag'' \<noteq> Undefined
                       then js_set apiParams ''tag'' (js_get params ''tag'') else apiParams);
          apiParams = (if js_get params ''self'' \<noteq> Undefined
                       then js_set apiParams ''self'' (js_get params ''self'') else apiParams);
          apiParams = (if js_get params ''authorId'' \<noteq> Undefined
                       then js_set apiParams ''author_id'' (js_get params ''authorId'') else apiParams);
          apiParams = (if js_get params ''language'' \<noteq> Undefined
                       then js_set apiParams ''language'' (js_get params ''language'') else apiParams);
          apiParams = (if js_get params ''titleLanguage'' \<noteq> Undefined
                       then js_set apiParams ''title_language'' (js_get params ''titleLanguage'') else apiParams);
          apiParams = (if js_get params ''sortBy'' \<noteq> Undefined
                       then js_set apiParams ''sort_by'' (js_get params ''sortBy'') else apiParams)
      in apiParams)"

definition listModels_config :: "js_value \<Rightarrow> AxiosRequestConfig" where
  "listModels_config params =
     \<lparr>req_method = ''get'', req_url = ''/model'', req_data = NoBody, req_headers = [],
      req_params = Some (listModels_apiParams params), responseType = None\<rparr>"

text \<open>
  \<^verbatim>\<open>{...item, id: item._id || item.id}\<close>, the expression of \<^verbatim>\<open>listModels\<close>,
  \<^verbatim>\<open>getModel\<close> and \<^verbatim>\<open>createModel\<close>. Spreading \<^verbatim>\<open>null\<close> or \<^verbatim>\<open>undefined\<close> copies
  nothing, but reading \<^verbatim>\<open>_id\<close> of it throws.
\<close>

definition with_id :: "js_value \<Rightarrow> js_error + js_value" where
  "with_id item =
     (if item = Null \<or> item = Undefined then Inl TypeError
      else Inr (Object (js_set (own_props item) ''id''
                  (js_or (js_get item ''_id'') (js_get item ''id'')))))"

text \<open>\<^verbatim>\<open>items.map(...)\<close>: the first element that throws ends the call.\<close>

fun map_items :: "js_value list \<Rightarrow> js_error + js_value list" where
  "map_items [] = Inr []"
| "map_items (item # rest) =
     (case with_id item of
        Inl e \<Rightarrow> Inl e
      | Inr x \<Rightarrow> (case map_items rest of Inl e \<Rightarrow> Inl e | Inr xs \<Rightarrow> Inr (x # xs)))"

record PaginatedResponse =
  total :: js_value
  items :: "js_value list"

text \<open>
  \<^verbatim>\<open>response.data.items.map\<close> throws when the body is \<^verbatim>\<open>null\<close> or \<^verbatim>\<open>undefined\<close>
  and when \<^verbatim>\<open>items\<close> is not an array.
\<close>

definition listModels :: "Session \<Rightarrow> transport \<Rightarrow> js_value \<Rightarrow> js_error + PaginatedResponse" where
  "listModels s net params =
     (case request s net (listModels_config params) of
        Inl e \<Rightarrow> Inl e
      | Inr response \<Rightarrow>
          if data response = Null \<or> data response = Undefined then Inl TypeError
          else (case js_get (data response) ''items'' of
                  Array xs \<Rightarrow>
                    (case map_items xs of
                       Inl e \<Rightarrow> Inl e
                     | Inr ys \<Rightarrow> Inr \<lparr>total = js_get (data response) ''total'', items = ys\<rparr>)
                | _ \<Rightarrow> Inl TypeError))"

definition getModel_config :: "string \<Rightarrow> AxiosRequestConfig" where
  "getModel_config modelId =
     \<lparr>req_method = ''get'', req_url = ''/model/'' @ modelId, req_data = NoBody, req_headers = [],
      req_params = None, responseType = None\<rparr>"

definition getModel :: "Session \<Rightarrow> transport \<Rightarrow> string \<Rightarrow> js_error + js_value" where
  "getModel s net modelId =
     (case request s net (getModel_config modelId) of
        Inl e \<Rightarrow> Inl e
      | Inr response \<Rightarrow> with_id (data response))"

subsection \<open>Model creation, update and deletion\<close>

text \<open>
  The parameter types are declared in \<^verbatim>\<open>./schemas\<close>; the fields are those the methods
  read. \<open>formData.getHeaders()\<close> of the form-data package gives the multipart content
  type with the form's boundary, which is a parameter.
\<close>

record ModelCreateParams =
  create_voices :: "Buffer list"
  create_coverImage :: "Buffer option"
  create_visibility :: "string option"
  create_type :: "string option"
  create_title :: string
  create_description :: "string option"
  create_trainMode :: "string option"
  create_texts :: "string list option"
  create_tags :: "string list option"
  create_enhanceAudioQuality :: "bool option"

record ModelUpdateParams =
  update_coverImage :: "Buffer option"
  update_title :: "string option"
  update_description :: "string option"
  update_visibility :: "string option"
  update_tags :: "string list option"

text \<open>\<^verbatim>\<open>x || d\<close> and \<^verbatim>\<open>if (x)\<close> on an optional string: absent and empty are falsy.\<close>

definition or_default :: "string option \<Rightarrow> string \<Rightarrow> string" where
  "or_default x d = (case x of Some v \<Rightarrow> (if v \<noteq> [] then v else d) | None \<Rightarrow> d)"

definition if_present :: "string option \<Rightarrow> string \<Rightarrow> (string \<times> form_value) list" where
  "if_present x name = (case x of Some v \<Rightarrow> (if v \<noteq> [] then [(name, Field v)] else []) | None \<Rightarrow> [])"

definition each :: "string list option \<Rightarrow> string \<Rightarrow> (string \<times> form_value) list" where
  "each xs name = (case xs of Some vs \<Rightarrow> map (\<lambda>v. (name, Field v)) vs | None \<Rightarrow> [])"

definition cover_part :: "Buffer option \<Rightarrow> (string \<times> form_value) list" where
  "cover_part img =
     (case img of Some b \<Rightarrow> [(''cover_image'', File b ''cover.png'' ''image/png'')] | None \<Rightarrow> [])"

definition formData_getHeaders :: "string \<Rightarrow> (string \<times> string) list" where
  "formData_getHeaders boundary = [(''content-type'', ''multipart/form-data; boundary='' @ boundary)]"

definition createModel_formData :: "ModelCreateParams \<Rightarrow> (string \<times> form_value) list" where
  "createModel_formData p =
     map (\<lambda>(i, voice). (''voices'', File voice (''voice_'' @ show_nat i @ ''.wav'') ''audio/wav''))
       (zip [0..<length (create_voices p)] (create_voices p))
     @ cover_part (create_coverImage p)
     @ [(''visibility'', Field (or_default (create_visibility p) ''private'')),
        (''type'', Field (or_default (create_type p) ''tts'')),
        (''title'', Field (create_title p))]
     @ if_present (create_description p) ''description''
     @ [(''train_mode'', Field (or_default (create_trainMode p) ''fast''))]
     @ each (create_texts p) ''texts''
     @ each (create_tags p) ''tags''
     @ [(''enhance_audio_quality'',
         Field (case create_enhanceAudioQuality p of
                  Some b \<Rightarrow> (if b then ''true'' else ''false'')
                | None \<Rightarrow> ''true''))]"

definition createModel_config :: "ModelCreateParams \<Rightarrow> string \<Rightarrow> AxiosRequestConfig" where
  "createModel_config p boundary =
     \<lparr>req_method = ''post'', req_url = ''/model'', req_data = Form (createModel_formData p),
      req_headers = spread [] (formData_getHeaders boundary),
      req_params = None, responseType = None\<rparr>"

definition createModel :: "Session \<Rightarrow> transport \<Rightarrow> ModelCreateParams \<Rightarrow> string
    \<Rightarrow> js_error + js_value" where
  "createModel s net p boundary =
     (case request s net (createModel_config p boundary) of
        Inl e \<Rightarrow> Inl e
      | Inr response \<Rightarrow> with_id (data response))"

definition deleteModel_config :: "string \<Rightarrow> AxiosRequestConfig" where
  "deleteModel_config modelId =
     \<lparr>req_method = ''delete'', req_url = ''/model/'' @ modelId, req_data = NoBody, req_headers = [],
      req_params = None, responseType = None\<rparr>"

definition deleteModel :: "Session \<Rightarrow> transport \<Rightarrow> string \<Rightarrow> js_error + unit" where
  "deleteModel s net modelId =
     (case request s net (deleteModel_config modelId) of Inl e \<Rightarrow> Inl e | Inr response \<Rightarrow> Inr ())"

definition updateModel_formData :: "ModelUpdateParams \<Rightarrow> (string \<times> form_value) list" where
  "updateModel_formData p =
     cover_part (update_coverImage p)
     @ if_present (update_title p) ''title''
     @ if_present (update_description p) ''description''
     @ if_present (update_visibility p) ''visibility''
     @ each (update_tags p) ''tags''"

definition updateModel_config :: "string \<Rightarrow> ModelUpdateParams \<Rightarrow> string \<Rightarrow> AxiosRequestConfig" where
  "updateModel_config modelId p boundary =
     \<lparr>req_method = ''patch'', req_url = ''/model/'' @ modelId, req_data = Form (updateModel_formData p),
      req_headers = spread [] (formData_getHeaders boundary),
      req_params = None, responseType = None\<rparr>"

definition updateModel :: "Session \<Rightarrow> transport \<Rightarrow> string \<Rightarrow> ModelUpdateParams \<Rightarrow> string
    \<Rightarrow> js_error + unit" where
  "updateModel s net modelId p boundary =
     (case request s net (updateModel_config modelId p boundary) of
        Inl e \<Rightarrow> Inl e
      | Inr response \<Rightarrow> Inr ())"

subsection \<open>Wallet\<close>

definition getApiCredit_apiParams :: "js_value \<Rightarrow> (string \<times> js_value) list" where
  "getApiCredit_apiParams params =
     (let apiParams = [];
          apiParams = (if js_get params ''checkFreeCredit'' \<noteq> Undefined
                       then js_set apiParams ''check_free_credit'' (js_get params ''checkFreeCredit'')
                       else apiParams)
      in apiParams)"

definition getApiCredit_config :: "js_value \<Rightarrow> AxiosRequestConfig" where
  "getApiCredit_config params =
     \<lparr>req_method = ''get'', req_url = ''/wallet/self/api-credit'', req_data = NoBody, req_headers = [],
      req_params = Some (getApiCredit_apiParams params), responseType = None\<rparr>"

definition getApiCredit :: "Session \<Rightarrow> transport \<Rightarrow> js_value \<Rightarrow> js_error + js_value" where
  "getApiCredit s net params =
     (case request s net (getApiCredit_config params) of
        Inl e \<Rightarrow> Inl e
      | Inr response \<Rightarrow> Inr (data response))"

definition getPackage_config :: "AxiosRequestConfig" where
  "getPackage_config =
     \<lparr>req_method = ''get'', req_url = ''/wallet/self/package'', req_data = NoBody, req_headers = [],
      req_params = None, responseType = None\<rparr>"

definition getPackage :: "Session \<Rightarrow> transport \<Rightarrow> js_error + js_value" where
  "getPackage s net =
     (case request s net getPackage_config of
        Inl e \<Rightarrow> Inl e
      | Inr response \<Rightarrow> Inr (data response))"

subsection \<open>Every call of the session\<close>

text \<open>The nine methods with their arguments, and the request each one issues.\<close>

datatype operation =
    Tts js_value "(string \<times> string) list"
  | Asr js_value
  | ListModels js_value
  | GetModel string
  | CreateModel ModelCreateParams string
  | DeleteModel string
  | UpdateModel string ModelUpdateParams string
  | GetApiCredit js_value
  | GetPackage

fun config_of :: "operation \<Rightarrow> AxiosRequestConfig" where
  "config_of (Tts requestPayload additionalHeaders) = tts_config requestPayload additionalHeaders"
| "config_of (Asr requestPayload) = asr_config requestPayload"
| "config_of (ListModels params) = listModels_config params"
| "config_of (GetModel modelId) = getModel_config modelId"
| "config_of (CreateModel p boundary) = createModel_config p boundary"
| "config_of (DeleteModel modelId) = deleteModel_config modelId"
| "config_of (UpdateModel modelId p boundary) = updateModel_config modelId p boundary"
| "config_of (GetApiCredit params) = getApiCredit_config params"
| "config_of GetPackage = getPackage_config"

section \<open>The vocabulary of the properties\<close>

text \<open>
  The translation of list parameters as the specification words it: each recognized
  caller-side name with its one wire name (in the order the code tests them), a
  parameter that is \<^verbatim>\<open>undefined\<close> giving no entry, and nothing else forwarded.
\<close>

definition translation :: "(string \<times> string) list" where
  "translation =
     [(''pageSize'', ''page_size''), (''pageNumber'', ''page_number''), (''title'', ''title''),
      (''tag'', ''tag''), (''self'', ''self''), (''authorId'', ''author_id''),
      (''language'', ''language''), (''titleLanguage'', ''title_language''),
      (''sortBy'', ''sort_by'')]"

definition entry :: "js_value \<Rightarrow> string \<Rightarrow> string \<Rightarrow> (string \<times> js_value) list" where
  "entry params c w = (if js_get params c = Undefined then [] else [(w, js_get params c)])"

definition wire_query :: "js_value \<Rightarrow> (string \<times> js_value) list" where
  "wire_query params = concat (map (\<lambda>(c, w). entry params c w) translation)"

text \<open>A header list names a header when one of its keys is that name, whatever the case.\<close>

definition names_header :: "(string \<times> string) list \<Rightarrow> string \<Rightarrow> bool" where
  "names_header hs k = (header_name k \<in> set (map (\<lambda>p. header_name (fst p)) hs))"

text \<open>The headers a caller passes to a call: only \<^verbatim>\<open>tts\<close> takes any.\<close>

fun additionalHeaders_of :: "operation \<Rightarrow> (string \<times> string) list" where
  "additionalHeaders_of (Tts requestPayload additionalHeaders) = additionalHeaders"
| "additionalHeaders_of call = []"

text \<open>
  An entity \<open>e\<close> is the wire payload \<open>w\<close> with its \<^verbatim>\<open>id\<close> normalized: \<^verbatim>\<open>id\<close> is the
  payload's \<^verbatim>\<open>_id\<close> when that is truthy and the payload's \<^verbatim>\<open>id\<close> otherwise, and
  every other property is the payload's own.
\<close>

definition normalized :: "js_value \<Rightarrow> js_value \<Rightarrow> bool" where
  "normalized w e \<longleftrightarrow>
     js_get e ''id'' = (if truthy (js_get w ''_id'') then js_get w ''_id'' else js_get w ''id'') \<and>
     (\<forall>k. k \<noteq> ''id'' \<longrightarrow> map_of (own_props e) k = map_of (own_props w) k)"

section \<open>Auxiliary facts\<close>

lemma map_of_js_set: "map_of (js_set ps k x) = (map_of ps)(k \<mapsto> x)"
  by (induction ps) (auto simp: fun_eq_iff)

lemma js_set_fresh: "k \<notin> fst ` set ps \<Longrightarrow> js_set ps k x = ps @ [(k, x)]"
  by (induction ps) auto

lemma of_char_digit: "d < 10 \<Longrightarrow> of_char (digit_char d) = (48 + d :: nat)"
  by (simp add: digit_char_def)

lemma show_nat_digits: "c \<in> set (show_nat n) \<Longrightarrow> (of_char c :: nat) < 58"
proof (induction n rule: show_nat.induct)
  case (1 n)
  show ?case
  proof (cases "n < 10")
    case True
    with "1.prems" have "c = digit_char n" by (simp add: show_nat.simps [of n])
    with True show ?thesis by (simp add: of_char_digit)
  next
    case False
    with "1.prems" have "c \<in> set (show_nat (n div 10)) \<or> c = digit_char (n mod 10)"
      by (auto simp add: show_nat.simps [of n])
    then show ?thesis
    proof
      assume "c \<in> set (show_nat (n div 10))"
      with False "1.IH" show ?thesis by simp
    next
      assume "c = digit_char (n mod 10)"
      then show ?thesis by (simp add: of_char_digit)
    qed
  qed
qed

text \<open>A key whose first character lies beyond the digits is no index key.\<close>

lemma show_nat_neq: "k \<noteq> [] \<Longrightarrow> (58::nat) \<le> of_char (hd k) \<Longrightarrow> show_nat n \<noteq> k"
proof
  assume k: "k \<noteq> []" "(58::nat) \<le> of_char (hd k)" and eq: "show_nat n = k"
  from k(1) eq have "hd k \<in> set (show_nat n)" by simp
  then have "(of_char (hd k) :: nat) < 58" by (rule show_nat_digits)
  with k(2) show False by simp
qed

lemma map_of_index_None:
  assumes "k \<noteq> []" "(58::nat) \<le> of_char (hd k)"
  shows "map_of (zip (map show_nat ns) vs) k = None"
proof -
  have "k \<notin> set (map show_nat ns)" using assms show_nat_neq by auto
  then have "k \<notin> fst ` set (zip (map show_nat ns) vs)"
    by (metis (no_types, lifting) image_iff in_set_zipE prod.collapse)
  then show ?thesis by (simp add: map_of_eq_None_iff)
qed

lemma js_get_no_index:
  assumes "k \<noteq> []" "(58::nat) \<le> of_char (hd k)" "\<forall>fs. v \<noteq> Object fs"
  shows "js_get v k = Undefined"
  using assms by (cases v) (simp_all add: js_get_def map_of_index_None)

lemma header_lookup_Nil: "header_lookup [] k = None"
  by (simp add: header_lookup_def)

lemma header_lookup_append:
  "header_lookup (xs @ ys) k =
     (case header_lookup ys k of Some v \<Rightarrow> Some v | None \<Rightarrow> header_lookup xs k)"
  by (simp add: header_lookup_def map_add_def split: option.splits)

lemma header_lookup_Cons:
  "header_lookup (p # hs) k =
     (case header_lookup hs k of
        Some v \<Rightarrow> Some v
      | None \<Rightarrow> if header_name (fst p) = header_name k then Some (snd p) else None)"
  using header_lookup_append [of "[p]" hs k]
  by (simp add: header_lookup_def split: option.splits)

lemma header_lookup_js_set_other:
  "header_name k' \<noteq> header_name k \<Longrightarrow> header_lookup (js_set hs k' x) k = header_lookup hs k"
  by (induction hs) (auto simp: header_lookup_Cons header_lookup_Nil split: option.splits)

lemma header_lookup_spread_other:
  "\<not> names_header extra k \<Longrightarrow> header_lookup (spread base extra) k = header_lookup base k"
  unfolding spread_def
proof (induction extra arbitrary: base)
  case Nil
  then show ?case by simp
next
  case (Cons p extra)
  then have "header_name (fst p) \<noteq> header_name k" and "\<not> names_header extra k"
    by (auto simp: names_header_def)
  with Cons.IH show ?case by (simp add: header_lookup_js_set_other)
qed

lemma header_name_Authorization: "header_name ''Authorization'' = ''authorization''"
  by code_simp

lemma header_name_developer_id: "header_name ''developer-id'' = ''developer-id''"
  by code_simp

lemma header_name_Content_Type: "header_name ''Content-Type'' = ''content-type''"
  by code_simp

lemma header_name_content_type: "header_name ''content-type'' = ''content-type''"
  by code_simp

lemmas header_names =
  header_name_Authorization header_name_developer_id header_name_Content_Type
  header_name_content_type

lemma settle_accepted: "validateStatus (status r) \<Longrightarrow> interceptor (settle r) = Inr r"
  by (simp add: settle_def interceptor_def)

lemma settle_refused:
  "\<not> validateStatus (status r) \<Longrightarrow>
     interceptor (settle r) = Inl (HttpCodeError (status r) (errorDetail r))"
  by (simp add: settle_def interceptor_def)

lemma handed_over_plain: "responseType cfg \<noteq> Some ''stream'' \<Longrightarrow> handed_over cfg r = r"
  by (simp add: handed_over_def)

lemma handed_over_stream: "data r = Stream chunks ending \<Longrightarrow> handed_over cfg r = r"
  by (simp add: handed_over_def)

lemma status_handed_over: "status (handed_over cfg r) = status r"
  by (simp add: handed_over_def)

lemma plain_configs:
  "responseType (asr_config requestPayload) = None"
  "responseType (listModels_config params) = None"
  "responseType (getModel_config modelId) = None"
  "responseType (createModel_config p boundary) = None"
  "responseType (deleteModel_config modelId) = None"
  "responseType (updateModel_config modelId q boundary) = None"
  "responseType (getApiCredit_config params) = None"
  "responseType getPackage_config = None"
  by (simp_all add: asr_config_def listModels_config_def getModel_config_def
      createModel_config_def deleteModel_config_def updateModel_config_def
      getApiCredit_config_def getPackage_config_def)

lemma request_accepted:
  "net s cfg = Answered r \<Longrightarrow> validateStatus (status r) \<Longrightarrow>
     request s net cfg = Inr (handed_over cfg r)"
  by (simp add: request_def settle_accepted status_handed_over)

lemma request_refused:
  "net s cfg = Answered r \<Longrightarrow> \<not> validateStatus (status r) \<Longrightarrow>
     request s net cfg
       = Inl (HttpCodeError (status r) (errorDetail (handed_over cfg r)))"
  using settle_refused [of "handed_over cfg r"]
  by (simp add: request_def status_handed_over)

lemma request_accepted_plain:
  "net s cfg = Answered r \<Longrightarrow> validateStatus (status r) \<Longrightarrow> responseType cfg = None \<Longrightarrow>
     request s net cfg = Inr r"
  by (simp add: request_accepted handed_over_plain)

lemma map_items_returns:
  "list_all (\<lambda>x. x \<noteq> Null \<and> x \<noteq> Undefined) xs \<Longrightarrow> \<exists>ys. map_items xs = Inr ys"
  by (induction xs) (auto simp: with_id_def)

lemma for_await_all: "for_await chunks ending = (chunks, map_option Error ending)"
  by (induction chunks) (simp_all add: Buffer_from_def)

lemma with_id_normalized: "with_id w = Inr e \<Longrightarrow> normalized w e"
  by (auto simp: with_id_def normalized_def js_get_def js_or_def map_of_js_set
      split: if_splits)

lemma map_items_normalized: "map_items xs = Inr ys \<Longrightarrow> list_all2 normalized xs ys"
proof (induction xs arbitrary: ys)
  case Nil
  then show ?case by simp
next
  case (Cons x xs)
  then show ?case
    by (auto split: sum.splits dest: with_id_normalized)
qed

lemma listModels_apiParams_entries:
  "listModels_apiParams params =
     entry params ''pageSize'' ''page_size'' @ entry params ''pageNumber'' ''page_number'' @
     entry params ''title'' ''title'' @ entry params ''tag'' ''tag'' @
     entry params ''self'' ''self'' @ entry params ''authorId'' ''author_id'' @
     entry params ''language'' ''language'' @
     entry params ''titleLanguage'' ''title_language'' @ entry params ''sortBy'' ''sort_by''"
proof -
  have step: "\<And>acc c w. w \<notin> fst ` set acc \<Longrightarrow>
      (if js_get params c \<noteq> Undefined then js_set acc w (js_get params c) else acc)
        = acc @ entry params c w"
    by (simp add: entry_def js_set_fresh)
  have fresh: "\<And>w' c w. w' \<noteq> w \<Longrightarrow> w' \<notin> fst ` set (entry params c w)"
    by (simp add: entry_def)
  show ?thesis
    unfolding listModels_apiParams_def Let_def
    by (simp add: step fresh image_Un)
qed

section \<open>Error classification\<close>

text \<open>
  C1. A call that receives status 401, 402 or 404 is to raise the matching narrow
  classification (authentication, payment, not-found) with the status preserved. The
  interceptor builds the same \<open>HttpCodeError\<close> for every rejected response: the status
  is preserved, but the error thrown for 401, 402 and 404 is the generic one, as it is
  for 500. Evaluated on \<^verbatim>\<open>getModel("invalid_id")\<close> answered with each of the three
  statuses.
\<close>

theorem C1_same_HttpCodeError_for_401_402_404:
  "getModel (new_Session ''key'' None None)
     (answering (Answered \<lparr>status = 404, statusText = ''Not Found'',
        data = Object [(''detail'', String ''Model not found'')]\<rparr>)) ''invalid_id''
     = Inl (HttpCodeError 404 (String ''Model not found''))
   \<and> getModel (new_Session ''key'' None None)
     (answering (Answered \<lparr>status = 401, statusText = ''Unauthorized'',
        data = Object [(''detail'', String ''Invalid token'')]\<rparr>)) ''invalid_id''
     = Inl (HttpCodeError 401 (String ''Invalid token''))
   \<and> getModel (new_Session ''key'' None None)
     (answering (Answered \<lparr>status = 402, statusText = ''Payment Required'',
        data = Object [(''message'', String ''No credit'')]\<rparr>)) ''invalid_id''
     = Inl (HttpCodeError 402 (String ''No credit''))"
  by (simp add: getModel_def getModel_config_def request_def handed_over_def answering_def
      settle_def validateStatus_def interceptor_def errorDetail_def js_or_def js_get_def)

text \<open>
  C3. A call that receives a non-2xx status other than 401, 402 and 404 is to raise an
  error with that status and a non-empty detail, the status line being the last
  resort. The status is preserved, but \<^verbatim>\<open>getPackage()\<close> answered 500 with an empty
  body (which axios hands over as the empty string) throws an error whose detail is
  the empty string: the string branch of the interceptor takes the body as it is. The
  object branch next to it does fall back: the same answer with the body
  \<^verbatim>\<open>{detail: ""}\<close> gives the status text.
\<close>

theorem C3_empty_string_body_gives_empty_detail:
  "getPackage (new_Session ''key'' None None)
     (answering (Answered \<lparr>status = 500, statusText = ''Internal Server Error'',
        data = String []\<rparr>))
     = Inl (HttpCodeError 500 (String []))
   \<and> getPackage (new_Session ''key'' None None)
     (answering (Answered \<lparr>status = 500, statusText = ''Internal Server Error'',
        data = Object [(''detail'', String [])]\<rparr>))
     = Inl (HttpCodeError 500 (String ''Internal Server Error''))"
  by (simp add: getPackage_def getPackage_config_def request_def handed_over_def
      answering_def settle_def validateStatus_def interceptor_def errorDetail_def
      js_or_def js_get_def)

section \<open>Closing the session\<close>

text \<open>
  C2, as the code has it. \<^verbatim>\<open>close()\<close> empties the socket pools of the two agents and
  leaves the client configuration as it was; the session keeps no closed state, so a
  request after \<^verbatim>\<open>close()\<close> is sent like any other and returns the response when the
  peer answers with a 2xx status.
\<close>

theorem C2_request_after_close_is_sent:
  assumes "net (snd (close s)) cfg = Answered r"
    and "validateStatus (status r)"
  shows "request (snd (close s)) net cfg = Inr (handed_over cfg r)
    \<and> client (snd (close s)) = client s
    \<and> sockets (httpAgent (snd (close s))) = []
    \<and> sockets (httpsAgent (snd (close s))) = []"
  using assms by (simp add: request_accepted close_def Agent_destroy_def)

theorem C2_request_after_close_is_sent_witness:
  "request (snd (close (new_Session ''key'' None None)))
     (answering (Answered \<lparr>status = 200, statusText = ''OK'', data = Object []\<rparr>))
     getPackage_config
     = Inr \<lparr>status = 200, statusText = ''OK'', data = Object []\<rparr>
   \<and> client (snd (close (new_Session ''key'' None None))) = client (new_Session ''key'' None None)"
  using C2_request_after_close_is_sent
    [of "answering (Answered \<lparr>status = 200, statusText = ''OK'', data = Object []\<rparr>)"
      "new_Session ''key'' None None" getPackage_config
      "\<lparr>status = 200, statusText = ''OK'', data = Object []\<rparr>"]
  by (simp add: answering_def validateStatus_def handed_over_def getPackage_config_def)

text \<open>
  C2 as stated fails: on a closed session \<^verbatim>\<open>getPackage()\<close> returns the peer's answer;
  no "client closed" condition is raised.
\<close>

theorem C2_request_after_close_counterexample:
  "getPackage (snd (close (new_Session ''key'' None None)))
     (answering (Answered \<lparr>status = 200, statusText = ''OK'',
        data = Object [(''type'', String ''premium'')]\<rparr>))
     = Inr (Object [(''type'', String ''premium'')])"
  by (simp add: getPackage_def getPackage_config_def request_def handed_over_def
      answering_def settle_def validateStatus_def interceptor_def)

text \<open>
  C8. The second of two \<^verbatim>\<open>close()\<close> calls releases no socket, so every pooled
  connection is released at most once, and it leaves the session as the first call
  left it. \<open>close\<close> has no error result: the method has no path that throws.
\<close>

theorem C8_close_twice:
  "fst (close (snd (close s))) = [] \<and> snd (close (snd (close s))) = snd (close s)"
  by (simp add: close_def Agent_destroy_def)

section \<open>Query parameters of list calls\<close>

lemma entries_keys:
  "map fst (concat (map (\<lambda>(c, w). entry params c w) tab)) =
     map snd (filter (\<lambda>(c, w). js_get params c \<noteq> Undefined) tab)"
  by (induction tab) (auto simp: entry_def)

text \<open>
  C4. The query \<^verbatim>\<open>listModels\<close> sends is the translation of its parameters: each
  recognized parameter that is not \<^verbatim>\<open>undefined\<close> appears once under its wire name
  with its value, no two recognized parameters share a wire name, and no other key is
  sent. \<^verbatim>\<open>{pageSize: 10, pageNumber: 1}\<close> gives exactly
  \<^verbatim>\<open>{page_size: 10, page_number: 1}\<close>, also when an unrecognized parameter
  (\<^verbatim>\<open>type\<close>) comes with it.
\<close>

theorem C4_listModels_query_translation:
  "req_params (listModels_config params) = Some (wire_query params)
   \<and> distinct (map fst translation) \<and> distinct (map snd translation)
   \<and> distinct (map fst (wire_query params))
   \<and> fst ` set (wire_query params) \<subseteq> snd ` set translation
   \<and> listModels_apiParams (Object [(''pageSize'', Number 10), (''pageNumber'', Number 1)])
       = [(''page_size'', Number 10), (''page_number'', Number 1)]
   \<and> listModels_apiParams
         (Object [(''pageSize'', Number 10), (''type'', String ''tts''), (''pageNumber'', Number 1)])
       = [(''page_size'', Number 10), (''page_number'', Number 1)]"
proof -
  have eq: "listModels_apiParams params = wire_query params"
    by (simp add: listModels_apiParams_entries wire_query_def translation_def)
  have t: "distinct (map fst translation)" "distinct (map snd translation)"
    by (simp_all add: translation_def)
  from t(2) have d: "distinct (map fst (wire_query params))"
    unfolding wire_query_def entries_keys by (rule distinct_map_filter)
  have "set (map fst (wire_query params)) \<subseteq> set (map snd translation)"
    unfolding wire_query_def entries_keys by auto
  then have sub: "fst ` set (wire_query params) \<subseteq> snd ` set translation"
    by simp
  have ex1: "listModels_apiParams (Object [(''pageSize'', Number 10), (''pageNumber'', Number 1)])
       = [(''page_size'', Number 10), (''page_number'', Number 1)]"
    by (simp add: listModels_apiParams_entries entry_def js_get_def)
  have ex2: "listModels_apiParams
         (Object [(''pageSize'', Number 10), (''type'', String ''tts''), (''pageNumber'', Number 1)])
       = [(''page_size'', Number 10), (''page_number'', Number 1)]"
    by (simp add: listModels_apiParams_entries entry_def js_get_def)
  have cfg: "req_params (listModels_config params) = Some (wire_query params)"
    by (simp add: listModels_config_def eq)
  from cfg t d sub ex1 ex2 show ?thesis
    by blast
qed

section \<open>Streaming synthesis\<close>

text \<open>
  C9. When the peer answers a synthesis call with a 2xx streamed response of chunks
  \<open>c\<^sub>1, ..., c\<^sub>N\<close> (N \<ge> 0), the generator yields exactly these chunks in this order,
  so the concatenation of what it yields is the peer's byte stream; it then ends as
  the stream ended.
\<close>

theorem C9_tts_yields_the_chunks_in_order:
  assumes "net s (tts_config requestPayload additionalHeaders) = Answered r"
    and "validateStatus (status r)"
    and "data r = Stream chunks ending"
  shows "fst (tts s net requestPayload additionalHeaders) = chunks
    \<and> concat (fst (tts s net requestPayload additionalHeaders)) = concat chunks
    \<and> snd (tts s net requestPayload additionalHeaders) = map_option Error ending"
  using assms by (simp add: tts_def request_accepted handed_over_stream for_await_all)

theorem C9_tts_yields_the_chunks_in_order_witness:
  "fst (tts (new_Session ''key'' None None)
          (answering (Answered \<lparr>status = 200, statusText = ''OK'',
             data = Stream [[73, 68], [], [51, 4, 0]] None\<rparr>))
          (Object [(''text'', String ''Hello, world!'')]) [(''model'', ''speech-1.5'')])
     = [[73, 68], [], [51, 4, 0]]
   \<and> concat (fst (tts (new_Session ''key'' None None)
          (answering (Answered \<lparr>status = 200, statusText = ''OK'',
             data = Stream [[73, 68], [], [51, 4, 0]] None\<rparr>))
          (Object [(''text'', String ''Hello, world!'')]) [(''model'', ''speech-1.5'')]))
     = [73, 68, 51, 4, 0]
   \<and> fst (tts (new_Session ''key'' None None)
          (answering (Answered \<lparr>status = 200, statusText = ''OK'', data = Stream [] None\<rparr>))
          Null [])
     = []"
  using C9_tts_yields_the_chunks_in_order
    [of "answering (Answered \<lparr>status = 200, statusText = ''OK'',
             data = Stream [[73, 68], [], [51, 4, 0]] None\<rparr>)"
      "new_Session ''key'' None None" "Object [(''text'', String ''Hello, world!'')]"
      "[(''model'', ''speech-1.5'')]"
      "\<lparr>status = 200, statusText = ''OK'', data = Stream [[73, 68], [], [51, 4, 0]] None\<rparr>"
      "[[73, 68], [], [51, 4, 0]]" None]
    C9_tts_yields_the_chunks_in_order
    [of "answering (Answered \<lparr>status = 200, statusText = ''OK'', data = Stream [] None\<rparr>)"
      "new_Session ''key'' None None" Null "[]"
      "\<lparr>status = 200, statusText = ''OK'', data = Stream [] None\<rparr>" "[]" None]
  by (simp add: answering_def validateStatus_def)

section \<open>Malformed payloads\<close>

text \<open>
  C5, as the code has it. The calls do not validate what they receive and there is no
  decode-failure classification. On a 2xx answer \<^verbatim>\<open>asr\<close> gives the body to
  \<^verbatim>\<open>ASRResponse.fromJSON\<close> and returns what it returns or rethrows, unchanged, what
  it throws; \<^verbatim>\<open>getApiCredit\<close> and \<^verbatim>\<open>getPackage\<close> return the body as it is; and
  \<^verbatim>\<open>listModels\<close> throws the runtime's \<open>TypeError\<close> when the body has no \<^verbatim>\<open>items\<close>
  array.
\<close>

theorem C5_payloads_are_not_validated:
  "(net s (asr_config requestPayload) = Answered r \<and> validateStatus (status r)
      \<longrightarrow> asr fromJSON s net requestPayload = fromJSON (data r))
   \<and> (net s (getApiCredit_config params) = Answered r \<and> validateStatus (status r)
      \<longrightarrow> getApiCredit s net params = Inr (data r))
   \<and> (net s getPackage_config = Answered r \<and> validateStatus (status r)
      \<longrightarrow> getPackage s net = Inr (data r))
   \<and> (net s (listModels_config params) = Answered r \<and> validateStatus (status r)
        \<and> (\<forall>xs. js_get (data r) ''items'' \<noteq> Array xs)
      \<longrightarrow> listModels s net params = Inl TypeError)"
proof -
  have "listModels s net params = Inl TypeError"
    if "net s (listModels_config params) = Answered r" "validateStatus (status r)"
      "\<forall>xs. js_get (data r) ''items'' \<noteq> Array xs"
    using that
    by (cases "js_get (data r) ''items''")
      (simp_all add: listModels_def request_accepted_plain plain_configs)
  then show ?thesis
    by (simp add: asr_def getApiCredit_def getPackage_def request_accepted_plain plain_configs)
qed

theorem C5_payloads_are_not_validated_witness:
  "asr (\<lambda>body. Inl (Error ''no text'')) (new_Session ''key'' None None)
     (answering (Answered \<lparr>status = 200, statusText = ''OK'', data = String ''not json''\<rparr>))
     Null = (Inl (Error ''no text'') :: js_error + unit)
   \<and> getApiCredit (new_Session ''key'' None None)
     (answering (Answered \<lparr>status = 200, statusText = ''OK'', data = String ''not json''\<rparr>))
     (Object []) = Inr (String ''not json'')
   \<and> getPackage (new_Session ''key'' None None)
     (answering (Answered \<lparr>status = 200, statusText = ''OK'', data = String ''not json''\<rparr>))
     = Inr (String ''not json'')
   \<and> listModels (new_Session ''key'' None None)
     (answering (Answered \<lparr>status = 200, statusText = ''OK'', data = String ''not json''\<rparr>))
     (Object []) = Inl TypeError"
  using C5_payloads_are_not_validated
    [of "answering (Answered \<lparr>status = 200, statusText = ''OK'', data = String ''not json''\<rparr>)"
      "new_Session ''key'' None None" Null
      "\<lparr>status = 200, statusText = ''OK'', data = String ''not json''\<rparr>"
      "\<lambda>body. Inl (Error ''no text'') :: js_error + unit" "Object []"]
  by (simp add: answering_def validateStatus_def js_get_no_index)

text \<open>
  C5 as stated fails: \<^verbatim>\<open>getPackage()\<close> answered 200 with a body that is no package
  entity (a string that is not JSON, which axios hands over as it is) returns that
  string; nothing is raised.
\<close>

theorem C5_malformed_payload_returned_counterexample:
  "getPackage (new_Session ''key'' None None)
     (answering (Answered \<lparr>status = 200, statusText = ''OK'', data = String ''not json''\<rparr>))
     = Inr (String ''not json'')"
  by (simp add: getPackage_def getPackage_config_def request_def handed_over_def
      answering_def settle_def validateStatus_def interceptor_def)

section \<open>Identity headers and content types\<close>

text \<open>
  C6, as the code has it. A session constructed with \<open>(apiKey, baseUrl, developerId)\<close>
  sends \<^verbatim>\<open>Authorization: Bearer <apiKey>\<close> and \<^verbatim>\<open>developer-id: <developerId>\<close> with
  every call whose caller-supplied headers name neither of the two (only \<^verbatim>\<open>tts\<close>
  takes caller-supplied headers; every other call sends them always), and \<^verbatim>\<open>close()\<close>
  leaves the client configuration, and with it the identity, unchanged.
\<close>

theorem C6_identity_headers_on_every_call:
  assumes "\<not> names_header (additionalHeaders_of call) ''Authorization''"
    and "\<not> names_header (additionalHeaders_of call) ''developer-id''"
  shows "header_lookup (wire_headers (new_Session apiKey baseUrl developerId) (config_of call))
        ''Authorization'' = Some (''Bearer '' @ apiKey)
    \<and> header_lookup (wire_headers (new_Session apiKey baseUrl developerId) (config_of call))
        ''developer-id'' = Some (case developerId of Some d \<Rightarrow> d | None \<Rightarrow> default_developerId)
    \<and> client (snd (close (new_Session apiKey baseUrl developerId)))
        = client (new_Session apiKey baseUrl developerId)"
proof -
  let ?s = "new_Session apiKey baseUrl developerId"
  have defaults: "header_lookup (headers (client ?s)) ''Authorization'' = Some (''Bearer '' @ apiKey)"
    "header_lookup (headers (client ?s)) ''developer-id''
       = Some (case developerId of Some d \<Rightarrow> d | None \<Rightarrow> default_developerId)"
    by (simp_all add: new_Session_def header_lookup_Cons header_lookup_Nil header_names)
  have none: "header_lookup (req_headers (config_of call)) ''Authorization'' = None"
    "header_lookup (req_headers (config_of call)) ''developer-id'' = None"
    using assms
    by (cases call;
        simp add: tts_config_def asr_config_def listModels_config_def getModel_config_def
          createModel_config_def deleteModel_config_def updateModel_config_def
          getApiCredit_config_def getPackage_config_def formData_getHeaders_def
          header_lookup_spread_other header_lookup_Cons header_lookup_Nil header_names
          names_header_def)+
  have "client (snd (close ?s)) = client ?s"
    by (simp add: close_def Agent_destroy_def)
  with defaults none show ?thesis
    by (simp add: wire_headers_def header_lookup_append)
qed

theorem C6_identity_headers_on_every_call_witness:
  "header_lookup (wire_headers (new_Session ''key'' None (Some ''dev'')) 
        (config_of (Tts Null [(''model'', ''speech-1.5'')]))) ''Authorization''
     = Some ''Bearer key''
   \<and> header_lookup (wire_headers (new_Session ''key'' None (Some ''dev''))
        (config_of (Tts Null [(''model'', ''speech-1.5'')]))) ''developer-id''
     = Some ''dev''"
  using C6_identity_headers_on_every_call
    [of "Tts Null [(''model'', ''speech-1.5'')]" "''key''" None "Some ''dev''"]
  by (simp add: names_header_def header_names) code_simp

text \<open>
  C6 as stated fails: \<^verbatim>\<open>tts\<close> called with \<^verbatim>\<open>additionalHeaders\<close> that carry an
  \<^verbatim>\<open>Authorization\<close> entry sends the caller's value in place of the session's bearer
  credential.
\<close>

theorem C6_caller_header_replaces_credential_counterexample:
  "header_lookup (wire_headers (new_Session ''key'' None None)
        (config_of (Tts Null [(''Authorization'', ''Bearer other'')]))) ''Authorization''
     = Some ''Bearer other''"
  by code_simp

text \<open>
  C7, as the code has it. Every \<^verbatim>\<open>asr\<close> call sends the msgpack encoding of its
  request and declares \<^verbatim>\<open>application/msgpack\<close>. Every \<^verbatim>\<open>tts\<close> call sends its request
  as a JSON body, and declares \<^verbatim>\<open>application/json\<close> whenever the caller's
  \<^verbatim>\<open>additionalHeaders\<close> carry no content type of their own.
\<close>

theorem C7_encoding_and_content_type:
  "req_data (asr_config requestPayload) = Msgpack requestPayload
   \<and> header_lookup (wire_headers s (asr_config requestPayload)) ''Content-Type''
       = Some ''application/msgpack''
   \<and> req_data (tts_config requestPayload additionalHeaders) = Payload requestPayload
   \<and> (\<not> names_header additionalHeaders ''Content-Type''
      \<longrightarrow> header_lookup (wire_headers s (tts_config requestPayload additionalHeaders))
            ''Content-Type'' = Some ''application/json'')"
  by (simp add: asr_config_def tts_config_def wire_headers_def header_lookup_append
      header_lookup_spread_other header_lookup_Cons header_lookup_Nil)

theorem C7_encoding_and_content_type_witness:
  "header_lookup (wire_headers (new_Session ''key'' None None)
        (tts_config (Object [(''text'', String ''Hello, world!'')]) [(''model'', ''speech-1.5'')]))
     ''Content-Type'' = Some ''application/json''
   \<and> req_data (tts_config (Object [(''text'', String ''Hello, world!'')]) [(''model'', ''speech-1.5'')])
     = Payload (Object [(''text'', String ''Hello, world!'')])"
  using C7_encoding_and_content_type
    [of "Object [(''text'', String ''Hello, world!'')]" "new_Session ''key'' None None"
      "[(''model'', ''speech-1.5'')]"]
  by (simp add: names_header_def header_names) code_simp

text \<open>
  C7 as stated fails: \<^verbatim>\<open>tts\<close> called with \<^verbatim>\<open>additionalHeaders\<close> that carry a
  \<^verbatim>\<open>Content-Type\<close> entry declares that content type, while the body is still the
  JSON one.
\<close>

theorem C7_caller_content_type_counterexample:
  "header_lookup (wire_headers (new_Session ''key'' None None)
        (tts_config (Object [(''text'', String ''Hello, world!'')])
           [(''Content-Type'', ''application/msgpack'')])) ''Content-Type''
     = Some ''application/msgpack''
   \<and> req_data (tts_config (Object [(''text'', String ''Hello, world!'')])
           [(''Content-Type'', ''application/msgpack'')])
     = Payload (Object [(''text'', String ''Hello, world!'')])"
  by code_simp

section \<open>Identifiers of model entities\<close>

text \<open>
  C10. On a 2xx answer, every entity that \<^verbatim>\<open>getModel\<close>, \<^verbatim>\<open>createModel\<close> or
  \<^verbatim>\<open>listModels\<close> returns is the wire payload with its \<^verbatim>\<open>id\<close> normalized
  (\<open>normalized\<close>): \<^verbatim>\<open>id\<close> is the payload's \<^verbatim>\<open>_id\<close> when that is truthy, the payload's
  \<^verbatim>\<open>id\<close> otherwise, and all other fields are the payload's. For \<^verbatim>\<open>listModels\<close> the
  payloads are the elements of \<^verbatim>\<open>items\<close>, taken one by one in order, and \<^verbatim>\<open>total\<close>
  is passed on. The calls do return: \<^verbatim>\<open>getModel\<close> and \<^verbatim>\<open>createModel\<close> when the
  payload is a value other than \<^verbatim>\<open>null\<close> and \<^verbatim>\<open>undefined\<close>, \<^verbatim>\<open>listModels\<close> when
  \<^verbatim>\<open>items\<close> is an array of such values.
\<close>

theorem C10_returned_entities_have_normalized_id:
  "(net s (getModel_config modelId) = Answered r \<and> validateStatus (status r)
      \<longrightarrow> (data r \<noteq> Null \<and> data r \<noteq> Undefined \<longrightarrow> (\<exists>e. getModel s net modelId = Inr e))
        \<and> (\<forall>e. getModel s net modelId = Inr e \<longrightarrow> normalized (data r) e))
   \<and> (net s (createModel_config p boundary) = Answered r \<and> validateStatus (status r)
      \<longrightarrow> (data r \<noteq> Null \<and> data r \<noteq> Undefined \<longrightarrow> (\<exists>e. createModel s net p boundary = Inr e))
        \<and> (\<forall>e. createModel s net p boundary = Inr e \<longrightarrow> normalized (data r) e))
   \<and> (net s (listModels_config params) = Answered r \<and> validateStatus (status r)
      \<longrightarrow> (\<forall>xs. js_get (data r) ''items'' = Array xs
                \<and> list_all (\<lambda>x. x \<noteq> Null \<and> x \<noteq> Undefined) xs
              \<longrightarrow> (\<exists>ys. listModels s net params
                          = Inr \<lparr>total = js_get (data r) ''total'', items = ys\<rparr>
                    \<and> list_all2 normalized xs ys))
        \<and> (\<forall>page. listModels s net params = Inr page \<longrightarrow>
              (\<exists>xs. js_get (data r) ''items'' = Array xs
                    \<and> list_all2 normalized xs (items page))))"
proof -
  have one: "(w \<noteq> Null \<and> w \<noteq> Undefined \<longrightarrow> (\<exists>e. with_id w = Inr e))
      \<and> (\<forall>e. with_id w = Inr e \<longrightarrow> normalized w e)" for w
  proof -
    have "\<exists>e. with_id w = Inr e" if "w \<noteq> Null" "w \<noteq> Undefined"
      using that by (simp add: with_id_def)
    moreover have "normalized w e" if "with_id w = Inr e" for e
      using that by (rule with_id_normalized)
    ultimately show ?thesis by blast
  qed
  have returns: "\<exists>ys. listModels s net params
        = Inr \<lparr>total = js_get (data r) ''total'', items = ys\<rparr> \<and> list_all2 normalized xs ys"
    if ans: "net s (listModels_config params) = Answered r" "validateStatus (status r)"
      and arr: "js_get (data r) ''items'' = Array xs"
      and ok: "list_all (\<lambda>x. x \<noteq> Null \<and> x \<noteq> Undefined) xs" for xs
  proof -
    from ok obtain ys where ys: "map_items xs = Inr ys"
      using map_items_returns by blast
    from arr have "data r \<noteq> Null" "data r \<noteq> Undefined"
      by (auto simp: js_get_def)
    with ans arr ys have "listModels s net params
        = Inr \<lparr>total = js_get (data r) ''total'', items = ys\<rparr>"
      by (simp add: listModels_def request_accepted_plain plain_configs)
    with ys show ?thesis
      by (auto dest: map_items_normalized)
  qed
  have many: "\<exists>xs. js_get (data r) ''items'' = Array xs \<and> list_all2 normalized xs (items page)"
    if "net s (listModels_config params) = Answered r" "validateStatus (status r)"
      "listModels s net params = Inr page" for page
  proof (cases "js_get (data r) ''items''")
    case (Array xs)
    with that obtain ys where "map_items xs = Inr ys" and "items page = ys"
      by (auto simp: listModels_def request_accepted_plain plain_configs
          split: if_splits sum.splits)
    with Array show ?thesis
      by (simp add: map_items_normalized)
  qed (use that in \<open>simp_all add: listModels_def request_accepted_plain plain_configs
        split: if_splits\<close>)
  from one [of "data r"] returns many show ?thesis
    by (simp add: getModel_def createModel_def request_accepted_plain plain_configs)
qed

theorem C10_returned_entities_have_normalized_id_witness:
  "getModel (new_Session ''key'' None None)
     (answering (Answered \<lparr>status = 200, statusText = ''OK'',
        data = Object [(''_id'', String ''abc''), (''id'', String ''old''), (''title'', String ''Voice'')]\<rparr>))
     ''abc''
     = Inr (Object [(''_id'', String ''abc''), (''id'', String ''abc''), (''title'', String ''Voice'')])
   \<and> normalized
       (Object [(''_id'', String ''abc''), (''id'', String ''old''), (''title'', String ''Voice'')])
       (Object [(''_id'', String ''abc''), (''id'', String ''abc''), (''title'', String ''Voice'')])
   \<and> listModels (new_Session ''key'' None None)
     (answering (Answered \<lparr>status = 200, statusText = ''OK'',
        data = Object [(''total'', Number 2),
          (''items'', Array [Object [(''_id'', String ''a1''), (''title'', String ''One'')],
                            Object [(''_id'', String ''''), (''id'', String ''b2'')]])]\<rparr>))
     (Object [(''pageSize'', Number 10)])
     = Inr \<lparr>total = Number 2,
            items = [Object [(''_id'', String ''a1''), (''title'', String ''One''), (''id'', String ''a1'')],
                     Object [(''_id'', String ''''), (''id'', String ''b2'')]]\<rparr>
   \<and> list_all2 normalized
       [Object [(''_id'', String ''a1''), (''title'', String ''One'')],
        Object [(''_id'', String ''''), (''id'', String ''b2'')]]
       [Object [(''_id'', String ''a1''), (''title'', String ''One''), (''id'', String ''a1'')],
        Object [(''_id'', String ''''), (''id'', String ''b2'')]]"
proof -
  let ?S = "new_Session ''key'' None None"
  let ?w = "Object [(''_id'', String ''abc''), (''id'', String ''old''), (''title'', String ''Voice'')]"
  let ?r = "\<lparr>status = 200, statusText = ''OK'', data = ?w\<rparr>"
  let ?e = "Object [(''_id'', String ''abc''), (''id'', String ''abc''), (''title'', String ''Voice'')]"
  let ?xs = "[Object [(''_id'', String ''a1''), (''title'', String ''One'')],
              Object [(''_id'', String ''''), (''id'', String ''b2'')]]"
  let ?ys = "[Object [(''_id'', String ''a1''), (''title'', String ''One''), (''id'', String ''a1'')],
              Object [(''_id'', String ''''), (''id'', String ''b2'')]]"
  let ?l = "\<lparr>status = 200, statusText = ''OK'',
              data = Object [(''total'', Number 2), (''items'', Array ?xs)]\<rparr>"
  let ?p = "Object [(''pageSize'', Number 10)]"
  have run: "getModel ?S (answering (Answered ?r)) ''abc'' = Inr ?e"
    by (simp add: getModel_def getModel_config_def request_def handed_over_def answering_def
        settle_def validateStatus_def interceptor_def with_id_def js_or_def js_get_def)
  have "answering (Answered ?r) ?S (getModel_config ''abc'') = Answered ?r"
    and "validateStatus (status ?r)"
    by (simp_all add: answering_def validateStatus_def)
  with C10_returned_entities_have_normalized_id
    [where net = "answering (Answered ?r)" and s = ?S and modelId = "''abc''" and r = ?r]
  have "\<forall>e. getModel ?S (answering (Answered ?r)) ''abc'' = Inr e \<longrightarrow> normalized (data ?r) e"
    by blast
  with run have single: "normalized ?w ?e" by simp
  have list_run: "listModels ?S (answering (Answered ?l)) ?p = Inr \<lparr>total = Number 2, items = ?ys\<rparr>"
    by (simp add: listModels_def listModels_config_def request_def handed_over_def answering_def
        settle_def validateStatus_def interceptor_def with_id_def js_or_def js_get_def)
  have "answering (Answered ?l) ?S (listModels_config ?p) = Answered ?l"
    and "validateStatus (status ?l)"
    and "js_get (data ?l) ''items'' = Array ?xs"
    and "list_all (\<lambda>x. x \<noteq> Null \<and> x \<noteq> Undefined) ?xs"
    by (simp_all add: answering_def validateStatus_def js_get_def)
  with C10_returned_entities_have_normalized_id
    [where net = "answering (Answered ?l)" and s = ?S and params = ?p and r = ?l]
  have "\<exists>ys. listModels ?S (answering (Answered ?l)) ?p
          = Inr \<lparr>total = js_get (data ?l) ''total'', items = ys\<rparr>
        \<and> list_all2 normalized ?xs ys"
    by blast
  with list_run have "list_all2 normalized ?xs ?ys" by simp
  with run single list_run show ?thesis by simp
qed

end
